theory Spec2Isabelle
  imports Complex_Main
begin

section \<open>Numbers and monetary amounts\<close>

text \<open>
  Prices, totals, compensation amounts and confidence scores are Python floats in the
  source. They are modelled as exact rationals: every decimal literal of the source
  (\<open>0.15\<close>, \<open>0.85\<close>, \<open>0.6\<close>, \<open>25.0\<close>, ...) stands for the decimal fraction it denotes
  and arithmetic is exact. Quantities and counters are Python integers (\<open>int\<close>).
\<close>

type_synonym money = rat

text \<open>
  Python's \<open>round(x, 2)\<close>: the nearest multiple of \<open>0.01\<close>, a tie going to the even
  multiple.
\<close>

definition round2 :: "rat \<Rightarrow> rat" where
  "round2 x =
     (let y = x * 100;
          n = \<lfloor>y\<rfloor>;
          f = y - of_int n
      in of_int (if f < 1 / 2 then n
                 else if 1 / 2 < f then n + 1
                 else if even n then n else n + 1) / 100)"


section \<open>Enumerations (src/models/enums.py)\<close>

datatype issue_type = MISSING_ITEM | WRONG_ORDER | LATE_DELIVERY | QUALITY | REFUND_REQUEST

datatype issue_status = IS_OPEN | IS_RESOLVED | IS_ESCALATED

datatype conversation_state =
  CS_GREETING | CS_BROWSING_MENU | CS_BUILDING_ORDER | CS_CONFIRMING_ORDER
  | CS_TRACKING_ORDER | CS_RESOLVING_ISSUE | CS_ENDED

datatype intent_type =
  IT_GREETING | IT_INQUIRY | IT_ORDERING | IT_COMPLAINT | IT_TRACKING | IT_FAREWELL
  | IT_CANCEL | IT_REMOVE | IT_QUERY_ORDER | IT_CONFIRM_ORDER | IT_ESCALATE | IT_UNCLEAR


section \<open>Policy engine (src/services/resolution_policies.py)\<close>

text \<open>
  The resolution message of a \<open>PolicyResolution\<close> is one of nine fixed texts, four of
  which print an amount; \<open>compensation_amount\<close> is optional and defaults to \<open>None\<close>.
\<close>

datatype policy_message =
  MissingItemRefund money
  | ExceedsAutoRefundLimit
  | LateDeliveryCredit money
  | DeliveryWithinRange
  | WrongOrderRefund money
  | HighValueOrder
  | QualityHalfRefund money
  | QualityManagerReview
  | ManualReview

record policy_resolution =
  can_auto_resolve :: bool
  resolution_message :: policy_message
  compensation_amount :: "money option"
  requires_escalation :: bool

text \<open>
  \<open>PolicyEngine.resolve\<close>; the first argument is the engine's \<open>max_auto_refund\<close>
  (constructor default \<open>50.0\<close>).
\<close>

definition resolve :: "money \<Rightarrow> issue_type \<Rightarrow> money \<Rightarrow> int \<Rightarrow> policy_resolution" where
  "resolve max_auto_refund issue_type order_total delay_minutes =
     (case issue_type of
        MISSING_ITEM \<Rightarrow>
          if order_total \<le> max_auto_refund
          then \<lparr>can_auto_resolve = True,
                resolution_message = MissingItemRefund order_total,
                compensation_amount = Some order_total,
                requires_escalation = False\<rparr>
          else \<lparr>can_auto_resolve = False,
                resolution_message = ExceedsAutoRefundLimit,
                compensation_amount = None,
                requires_escalation = True\<rparr>
      | LATE_DELIVERY \<Rightarrow>
          if delay_minutes > 30
          then (let credit = min (order_total * (2 / 10)) 25
                in \<lparr>can_auto_resolve = True,
                    resolution_message = LateDeliveryCredit credit,
                    compensation_amount = Some credit,
                    requires_escalation = False\<rparr>)
          else \<lparr>can_auto_resolve = True,
                resolution_message = DeliveryWithinRange,
                compensation_amount = Some 0,
                requires_escalation = False\<rparr>
      | WRONG_ORDER \<Rightarrow>
          if order_total \<le> 75
          then \<lparr>can_auto_resolve = True,
                resolution_message = WrongOrderRefund order_total,
                compensation_amount = Some order_total,
                requires_escalation = False\<rparr>
          else \<lparr>can_auto_resolve = False,
                resolution_message = HighValueOrder,
                compensation_amount = None,
                requires_escalation = True\<rparr>
      | QUALITY \<Rightarrow>
          if order_total \<le> 30
          then (let compensation = order_total * (5 / 10)
                in \<lparr>can_auto_resolve = True,
                    resolution_message = QualityHalfRefund compensation,
                    compensation_amount = Some compensation,
                    requires_escalation = False\<rparr>)
          else \<lparr>can_auto_resolve = False,
                resolution_message = QualityManagerReview,
                compensation_amount = None,
                requires_escalation = True\<rparr>
      | REFUND_REQUEST \<Rightarrow>
          \<lparr>can_auto_resolve = False,
           resolution_message = ManualReview,
           compensation_amount = None,
           requires_escalation = True\<rparr>)"

text \<open>\<open>PolicyEngine()\<close> as every caller in the repository builds it.\<close>

definition default_max_auto_refund :: money where
  "default_max_auto_refund = 50"


section \<open>Catalog, draft and session data (src/models/database.py)\<close>

text \<open>
  A \<open>MenuItem\<close> row. Identifiers are the strings the source compares
  (\<open>str(menu_item.id)\<close>); \<open>arabic_name\<close> is nullable.
\<close>

record menu_item =
  mi_id :: string
  mi_name :: string
  mi_arabic_name :: "string option"
  mi_price :: money
  mi_category :: string
  mi_is_available :: bool

text \<open>A line item of the draft: the dictionary the add path appends.\<close>

record line_item =
  li_id :: string
  li_name :: string
  li_arabic_name :: string
  li_price :: money
  li_category :: string
  li_quantity :: int

text \<open>
  The order draft is the JSON object stored in \<open>Session.current_order_draft\<close>: the
  list under \<open>"items"\<close> and the four monetary keys written by
  \<open>order_draft.update(totals)\<close>. The column is nullable; \<open>None\<close> is the absent draft.
\<close>

record order_draft =
  items :: "line_item list"
  subtotal :: money
  tax :: money
  delivery_fee :: money
  total :: money

datatype role = User | Assistant

text \<open>
  Message texts: what the customer typed, one of the fixed replies of the orchestrator
  (the flag is \<open>language == "ar"\<close>), or a text produced by one of the agents.
\<close>

datatype canned =
  WelcomeText | GreetingReply
  | ClarifyOrdering | ClarifyInquiry | ClarifyTracking | ClarifyGeneric
  | ClarifyMoreSpecific | OfferHumanTransfer
  | CancelReply | EscalateReply | FarewellReply | HelpReply
  | EmptyMessageReply | UnexpectedErrorReply

datatype msg_text = Typed string | Canned canned bool | AgentText string

record session =
  session_id :: string
  customer_id :: string
  conversation_history :: "(role \<times> msg_text) list"
  current_order_draft :: "order_draft option"
  conversation_state :: conversation_state
  unclear_count :: "int option"


section \<open>Order draft engine (src/services/order_processing_agent.py)\<close>

subsection \<open>Quantities and mentions\<close>

text \<open>
  The value under \<open>"quantity"\<close> of a mention, by the cases \<open>_parse_quantity\<close>
  distinguishes: an \<open>int\<close>; a \<open>str\<close> (with the result of \<open>int(...)\<close> on it, \<open>None\<close>
  when that raises \<open>ValueError\<close>); a dictionary with a \<open>"value"\<close> key (likewise);
  anything else.
\<close>

datatype quantity_input = QInt int | QStr "int option" | QDictValue "int option" | QOther

definition parse_quantity :: "quantity_input \<Rightarrow> int" where
  "parse_quantity quantity_input =
     (case quantity_input of
        QInt quantity \<Rightarrow> max 1 (min 50 quantity)
      | QStr (Some quantity) \<Rightarrow> max 1 (min 50 quantity)
      | QStr None \<Rightarrow> 1
      | QDictValue (Some quantity) \<Rightarrow> max 1 (min 50 quantity)
      | QDictValue None \<Rightarrow> 1
      | QOther \<Rightarrow> 1)"

text \<open>
  One element of the \<open>items\<close> list of a request: a bare string (legacy format), a
  dictionary (with the name read by \<open>item.get("name", item.get("item", ""))\<close> and the
  quantity by \<open>item.get("quantity", 1)\<close>), or a value of any other type.
\<close>

datatype mention = MStr string | MDict string quantity_input | MInvalid

text \<open>\<open>menu_item.arabic_name or menu_item.name\<close>.\<close>

definition display_name :: "menu_item \<Rightarrow> string" where
  "display_name menu_item =
     (case mi_arabic_name menu_item of
        None \<Rightarrow> mi_name menu_item
      | Some a \<Rightarrow> if a = [] then mi_name menu_item else a)"

subsection \<open>Aggregation and totals\<close>

text \<open>
  \<open>_aggregate_items\<close> keeps a dictionary keyed by item id, in insertion order; the
  first entry of an id is copied, later ones add their quantity to it.
\<close>

fun aggregate_into :: "line_item list \<Rightarrow> line_item \<Rightarrow> line_item list" where
  "aggregate_into [] item = [item]"
| "aggregate_into (a # aggregated) item =
     (if li_id a = li_id item
      then a\<lparr>li_quantity := li_quantity a + li_quantity item\<rparr> # aggregated
      else a # aggregate_into aggregated item)"

definition aggregate_items :: "line_item list \<Rightarrow> line_item list" where
  "aggregate_items its = foldl aggregate_into [] its"

record totals =
  t_subtotal :: money
  t_tax :: money
  t_delivery_fee :: money
  t_total :: money

definition raw_subtotal :: "line_item list \<Rightarrow> money" where
  "raw_subtotal its = sum_list (map (\<lambda>item. li_price item * of_int (li_quantity item)) its)"

definition calculate_totals :: "line_item list \<Rightarrow> totals" where
  "calculate_totals its =
     (let subtotal = raw_subtotal its;
          tax = subtotal * (15 / 100);
          delivery_fee = 0;
          total = subtotal + tax + delivery_fee
      in \<lparr>t_subtotal = round2 subtotal,
          t_tax = round2 tax,
          t_delivery_fee = delivery_fee,
          t_total = round2 total\<rparr>)"

text \<open>\<open>order_draft.update(totals)\<close> on a draft whose list is \<open>its\<close>.\<close>

definition with_totals :: "line_item list \<Rightarrow> order_draft" where
  "with_totals its =
     (let t = calculate_totals its
      in \<lparr>items = its, subtotal = t_subtotal t, tax = t_tax t,
          delivery_fee = t_delivery_fee t, total = t_total t\<rparr>)"

text \<open>The literal the remove path returns for a draft that became empty.\<close>

definition empty_draft :: order_draft where
  "empty_draft = \<lparr>items = [], subtotal = 0, tax = 0, delivery_fee = 0, total = 0\<rparr>"

subsection \<open>Recommendations (src/services/recommendations.py)\<close>

definition rules :: "string \<Rightarrow> string list option" where
  "rules category =
     (if category = ''Burgers'' then Some [''Fries'', ''Onion Rings'', ''Soda'', ''Milkshake'']
      else if category = ''Pizza'' then Some [''Garlic Bread'', ''Wings'', ''Soda'', ''Salad'']
      else if category = ''Sides'' then Some [''Soda'', ''Dipping Sauce'']
      else if category = ''Beverages'' then Some [''Dessert'']
      else None)"

definition add_recommendations :: "string list \<Rightarrow> string list \<Rightarrow> string list \<Rightarrow> string list" where
  "add_recommendations existing_items recommendations recs =
     foldl (\<lambda>acc rec. if rec \<notin> set existing_items \<and> rec \<notin> set acc then acc @ [rec] else acc)
       recommendations recs"

definition get_recommendations :: "line_item list \<Rightarrow> string list" where
  "get_recommendations its =
     (let existing_items = map li_name its
      in take 3 (foldl (\<lambda>recommendations item.
                   case rules (li_category item) of
                     None \<Rightarrow> recommendations
                   | Some recs \<Rightarrow> add_recommendations existing_items recommendations recs)
                 [] its))"

subsection \<open>Results and messages of the agent\<close>

datatype suggestion = DidYouMean string | SimilarItem string

datatype removed_entry = RemovedAll string | RemovedSome int string

text \<open>
  The user-facing texts of the agent, by the template that builds them and the values
  the template prints.
\<close>

datatype order_message =
  NotInMenu "string list" "suggestion list"
  | AddedToOrder "(int \<times> string) list" "string list" "suggestion list" "string list"
  | NotUnderstoodNewItems
  | CompoundMessage order_message order_message
  | NoDraftButCanAdd
  | NoDraftToRemoveFrom
  | NothingToRemoveIdentified
  | NotInCurrentOrder "string list"
  | RemovedFromOrder "removed_entry list" "string list"
  | NoOrderToSubmit
  | OrderIsEmpty
  | NoLongerAvailable string
  | OrderConfirmed string money
  | SaveFailed

record agent_result =
  success :: bool
  message :: order_message
  result_draft :: "order_draft option"
  should_retry_as_order :: bool

definition failure :: "order_message \<Rightarrow> agent_result" where
  "failure m = \<lparr>success = False, message = m, result_draft = None,
                 should_retry_as_order = False\<rparr>"

subsection \<open>The add path: \<open>_process_items_directly\<close>\<close>

text \<open>
  \<open>_find_menu_item\<close> returns a catalog item (or \<open>None\<close>) and a confidence. Its first
  guard is in the model; the matching strategies behind it (exact, LLM, substring,
  keyword, fuzzy) are the parameter \<open>resolver\<close>.
\<close>

definition find_menu_item ::
  "(string \<Rightarrow> menu_item option \<times> rat) \<Rightarrow> string \<Rightarrow> menu_item option \<times> rat" where
  "find_menu_item resolver item_name = (if item_name = [] then (None, 0) else resolver item_name)"

text \<open>\<open>existing_item["quantity"] += q\<close> on the first line item with the given id.\<close>

fun add_quantity :: "string \<Rightarrow> int \<Rightarrow> line_item list \<Rightarrow> line_item list" where
  "add_quantity i q [] = []"
| "add_quantity i q (itm # its) =
     (if li_id itm = i then itm\<lparr>li_quantity := li_quantity itm + q\<rparr> # its
      else itm # add_quantity i q its)"

definition new_line_item :: "menu_item \<Rightarrow> int \<Rightarrow> line_item" where
  "new_line_item menu_item quantity_to_add =
     \<lparr>li_id = mi_id menu_item,
      li_name = mi_name menu_item,
      li_arabic_name = display_name menu_item,
      li_price = mi_price menu_item,
      li_category = mi_category menu_item,
      li_quantity = quantity_to_add\<rparr>"

record add_state =
  draft_items :: "line_item list"
  found_items :: "(int \<times> string) list"
  not_found :: "string list"
  suggestions :: "suggestion list"

text \<open>The body of the loop for a mention with a name and a quantity.\<close>

definition add_item ::
  "(string \<Rightarrow> menu_item option \<times> rat) \<Rightarrow> (string \<Rightarrow> string list) \<Rightarrow>
   add_state \<Rightarrow> string \<Rightarrow> quantity_input \<Rightarrow> add_state" where
  "add_item resolver find_similar_items st item_name item_quantity =
     (let low = (st\<lparr>not_found := not_found st @ [item_name],
                     suggestions := suggestions st
                        @ map SimilarItem (take 2 (find_similar_items item_name))\<rparr>)
      in case find_menu_item resolver item_name of
           (None, confidence) \<Rightarrow> low
         | (Some menu_item, confidence) \<Rightarrow>
             if confidence \<ge> 85 / 100 then
               (let quantity_to_add = parse_quantity item_quantity
                in st\<lparr>draft_items :=
                         (case find (\<lambda>itm. li_id itm = mi_id menu_item) (draft_items st) of
                            Some existing_item \<Rightarrow>
                              add_quantity (mi_id menu_item) quantity_to_add (draft_items st)
                          | None \<Rightarrow>
                              draft_items st @ [new_line_item menu_item quantity_to_add]),
                       found_items := found_items st
                         @ [(quantity_to_add, display_name menu_item)]\<rparr>)
             else if 6 / 10 \<le> confidence \<and> confidence < 85 / 100 then
               st\<lparr>suggestions := suggestions st @ [DidYouMean (display_name menu_item)],
                  not_found := not_found st @ [item_name]\<rparr>
             else low)"

fun process_mention ::
  "(string \<Rightarrow> menu_item option \<times> rat) \<Rightarrow> (string \<Rightarrow> string list) \<Rightarrow>
   add_state \<Rightarrow> mention \<Rightarrow> add_state" where
  "process_mention resolver sim st (MStr item_name) = add_item resolver sim st item_name (QInt 1)"
| "process_mention resolver sim st (MDict item_name item_quantity) =
     add_item resolver sim st item_name item_quantity"
| "process_mention resolver sim st MInvalid = st"

text \<open>The draft loaded at the start: \<open>{"items": []}\<close> when the session has none.\<close>

definition load_items :: "session \<Rightarrow> line_item list" where
  "load_items s =
     (let its = (case current_order_draft s of None \<Rightarrow> [] | Some d \<Rightarrow> items d)
      in if its \<noteq> [] then aggregate_items its else its)"

definition process_items_directly ::
  "(string \<Rightarrow> menu_item option \<times> rat) \<Rightarrow> (string \<Rightarrow> string list) \<Rightarrow>
   mention list \<Rightarrow> session \<Rightarrow> agent_result \<times> session" where
  "process_items_directly resolver sim mentions s =
     (let st = foldl (process_mention resolver sim)
                 \<lparr>draft_items = load_items s, found_items = [], not_found = [],
                  suggestions = []\<rparr> mentions
      in if found_items st = [] \<and> not_found st \<noteq> []
         then (failure (NotInMenu (not_found st) (suggestions st)), s)
         else (let order_draft = with_totals (draft_items st)
               in (\<lparr>success = True,
                    message = AddedToOrder (found_items st) (not_found st) (suggestions st)
                                (take 2 (get_recommendations (draft_items st))),
                    result_draft = Some order_draft,
                    should_retry_as_order = False\<rparr>,
                   s\<lparr>current_order_draft := Some order_draft\<rparr>)))"

subsection \<open>The remove path: \<open>remove_item\<close>\<close>

datatype py_error = TypeError

text \<open>
  An entry of the remove path's \<open>not_found\<close> list: a name, or the mention itself when it
  was neither a dictionary nor a string (then \<open>', '.join(not_found)\<close> raises).
\<close>

datatype not_found_entry = NfName string | NfNotAString

fun join_names :: "not_found_entry list \<Rightarrow> py_error + string list" where
  "join_names [] = Inr []"
| "join_names (NfNotAString # es) = Inl TypeError"
| "join_names (NfName n # es) =
     (case join_names es of Inl e \<Rightarrow> Inl e | Inr ns \<Rightarrow> Inr (n # ns))"

record remove_state =
  kept_items :: "line_item list"
  removed_items :: "removed_entry list"
  missing :: "not_found_entry list"

definition remove_named ::
  "(string \<Rightarrow> menu_item option \<times> rat) \<Rightarrow> remove_state \<Rightarrow> string \<Rightarrow> int \<Rightarrow> remove_state" where
  "remove_named resolver st item_name quantity_to_remove =
     (case find_menu_item resolver item_name of
        (None, confidence) \<Rightarrow> st\<lparr>missing := missing st @ [NfName item_name]\<rparr>
      | (Some menu_item, confidence) \<Rightarrow>
          (case find (\<lambda>item. li_id item = mi_id menu_item) (kept_items st) of
             None \<Rightarrow> st\<lparr>missing := missing st @ [NfName (display_name menu_item)]\<rparr>
           | Some existing_item \<Rightarrow>
               if li_quantity existing_item \<le> quantity_to_remove
               then st\<lparr>kept_items := remove1 existing_item (kept_items st),
                       removed_items := removed_items st
                         @ [RemovedAll (display_name menu_item)]\<rparr>
               else st\<lparr>kept_items :=
                         add_quantity (mi_id menu_item) (- quantity_to_remove) (kept_items st),
                       removed_items := removed_items st
                         @ [RemovedSome quantity_to_remove (display_name menu_item)]\<rparr>))"

fun remove_mention ::
  "(string \<Rightarrow> menu_item option \<times> rat) \<Rightarrow> remove_state \<Rightarrow> mention \<Rightarrow> remove_state" where
  "remove_mention resolver st (MDict item_name q) =
     remove_named resolver st item_name (parse_quantity q)"
| "remove_mention resolver st (MStr item_name) = remove_named resolver st item_name 1"
| "remove_mention resolver st MInvalid = st\<lparr>missing := missing st @ [NfNotAString]\<rparr>"

text \<open>
  \<open>remove_item\<close>. \<open>has_add_keywords\<close> is the lexical test on the message,
  \<open>extracted\<close> what \<open>_extract_items_from_message\<close> returns for it, \<open>entity_items\<close> the
  list under \<open>entities["items"]\<close>. The function returns the new draft in its result and
  leaves the session as it is; its caller stores the draft.
\<close>

definition remove_item ::
  "(string \<Rightarrow> menu_item option \<times> rat) \<Rightarrow> bool \<Rightarrow> mention list \<Rightarrow> session \<Rightarrow>
   mention list \<Rightarrow> py_error + agent_result" where
  "remove_item resolver has_add_keywords extracted s entity_items =
     (case current_order_draft s of
        None \<Rightarrow>
          if has_add_keywords
          then Inr \<lparr>success = False, message = NoDraftButCanAdd, result_draft = None,
                    should_retry_as_order = True\<rparr>
          else Inr (failure NoDraftToRemoveFrom)
      | Some order_draft \<Rightarrow>
          (let mentions = (if entity_items \<noteq> [] then entity_items else extracted)
           in if mentions = [] then Inr (failure NothingToRemoveIdentified)
              else
                (let st = foldl (remove_mention resolver)
                            \<lparr>kept_items = items order_draft, removed_items = [],
                             missing = []\<rparr> mentions
                 in if removed_items st = []
                    then (case join_names (missing st) of
                            Inl e \<Rightarrow> Inl e
                          | Inr names \<Rightarrow> Inr (failure (NotInCurrentOrder names)))
                    else
                      (let new_draft = (if kept_items st \<noteq> []
                                        then with_totals (kept_items st)
                                        else empty_draft)
                       in case (if missing st \<noteq> [] then join_names (missing st) else Inr []) of
                            Inl e \<Rightarrow> Inl e
                          | Inr names \<Rightarrow>
                              Inr \<lparr>success = True,
                                   message = RemovedFromOrder (removed_items st) names,
                                   result_draft = Some new_draft,
                                   should_retry_as_order = False\<rparr>))))"

subsection \<open>An add request: \<open>process_order_request\<close>\<close>

text \<open>
  What the lexical helpers and the extraction call return for the message of a request:
  the two keyword tests, \<open>_extract_items_to_remove(message)\<close> and
  \<open>_extract_items_with_llm\<close> on the add-only part of the message.
\<close>

record message_cues =
  has_remove_keywords :: bool
  has_add_keywords :: bool
  items_to_remove :: "string list"
  extracted_items :: "mention list"

definition compound_prefix ::
  "(string \<Rightarrow> menu_item option \<times> rat) \<Rightarrow> message_cues \<Rightarrow> session \<Rightarrow> order_message option" where
  "compound_prefix resolver cues s =
     (if has_remove_keywords cues \<and> has_add_keywords cues \<and> current_order_draft s \<noteq> None
         \<and> items_to_remove cues \<noteq> []
      then (case remove_item resolver (has_add_keywords cues) [] s
                   (map MStr (items_to_remove cues)) of
              Inl e \<Rightarrow> None
            | Inr remove_result \<Rightarrow>
                if success remove_result then Some (message remove_result) else None)
      else None)"

definition process_order_request ::
  "(string \<Rightarrow> menu_item option \<times> rat) \<Rightarrow> (string \<Rightarrow> string list) \<Rightarrow> message_cues \<Rightarrow>
   session \<Rightarrow> mention list \<Rightarrow> agent_result \<times> session" where
  "process_order_request resolver sim cues s entity_items =
     (let compound_result = compound_prefix resolver cues s;
          (result, s') =
            (if entity_items \<noteq> [] then process_items_directly resolver sim entity_items s
             else if extracted_items cues \<noteq> []
                  then process_items_directly resolver sim (extracted_items cues) s
                  else (failure NotUnderstoodNewItems, s))
      in case compound_result of
           Some prefix \<Rightarrow>
             if success result
             then (result\<lparr>message := CompoundMessage prefix (message result)\<rparr>, s')
             else (result, s')
         | None \<Rightarrow> (result, s'))"

subsection \<open>Submission: \<open>submit_order\<close>\<close>

record order_row =
  o_id :: string
  o_customer_id :: string
  o_subtotal :: money
  o_tax :: money
  o_delivery_fee :: money
  o_total :: money
  o_fulfillment_type :: string
  o_order_number :: string

record order_item_row =
  oi_order_id :: string
  oi_menu_item_id :: string
  oi_quantity :: int
  oi_unit_price :: money

text \<open>
  The committed contents of the tables the submission reads and writes (an order's
  status, always \<open>PENDING\<close> here, and its estimated-ready time are left out). The
  session row is passed beside it.
\<close>

record database =
  menu_items :: "menu_item list"
  orders :: "order_row list"
  order_items :: "order_item_row list"

text \<open>
  Whether each write to the database succeeds, in the order \<open>submit_order\<close> issues
  them: \<open>db.flush()\<close> after adding the order, the \<open>db.commit()\<close> of the order and its
  items, the \<open>db.commit()\<close> after clearing the draft. A write that fails raises
  \<open>SQLAlchemyError\<close>, which the function catches: it rolls back what is not yet
  committed and returns the failure.
\<close>

record db_outcomes =
  flush_ok :: bool
  commit_order_ok :: bool
  commit_clear_ok :: bool

text \<open>
  The loop over the draft's items: the query for an available catalog item with the
  line's id, the early return at the first line that has none, an order item otherwise.
\<close>

fun stage_order_items ::
  "menu_item list \<Rightarrow> string \<Rightarrow> line_item list \<Rightarrow> line_item + order_item_row list" where
  "stage_order_items menu order_id [] = Inr []"
| "stage_order_items menu order_id (item_data # rest) =
     (case find (\<lambda>m. mi_id m = li_id item_data \<and> mi_is_available m) menu of
        None \<Rightarrow> Inl item_data
      | Some menu_item \<Rightarrow>
          (case stage_order_items menu order_id rest of
             Inl unavailable \<Rightarrow> Inl unavailable
           | Inr rows \<Rightarrow>
               Inr (\<lparr>oi_order_id = order_id, oi_menu_item_id = li_id item_data,
                     oi_quantity = li_quantity item_data,
                     oi_unit_price = li_price item_data\<rparr> # rows)))"

record submit_result =
  sr_success :: bool
  sr_message :: order_message
  sr_order_id :: "string option"
  sr_order_number :: "string option"
  sr_order_cleared :: bool
  sr_receipt :: "order_draft option"

definition submit_failure :: "order_message \<Rightarrow> submit_result" where
  "submit_failure m = \<lparr>sr_success = False, sr_message = m, sr_order_id = None,
                        sr_order_number = None, sr_order_cleared = False, sr_receipt = None\<rparr>"

text \<open>
  \<open>submit_order\<close>. The generated primary key and the order number (date and random
  suffix) are arguments. The result is the returned dictionary, the committed tables and
  the session row as stored when the function returns.
\<close>

definition submit_order ::
  "db_outcomes \<Rightarrow> string \<Rightarrow> string \<Rightarrow> database \<Rightarrow> session \<Rightarrow>
   submit_result \<times> database \<times> session" where
  "submit_order env order_id order_number db s =
     (case current_order_draft s of
        None \<Rightarrow> (submit_failure NoOrderToSubmit, db, s)
      | Some draft \<Rightarrow>
          if items draft = [] then (submit_failure OrderIsEmpty, db, s)
          else
            (let order = \<lparr>o_id = order_id, o_customer_id = customer_id s,
                          o_subtotal = subtotal draft, o_tax = tax draft,
                          o_delivery_fee = delivery_fee draft, o_total = total draft,
                          o_fulfillment_type = ''drive-thru'',
                          o_order_number = order_number\<rparr>
             in if \<not> flush_ok env then (submit_failure SaveFailed, db, s)
                else
                  (case stage_order_items (menu_items db) order_id (items draft) of
                     Inl item_data \<Rightarrow>
                       (submit_failure (NoLongerAvailable (li_arabic_name item_data)), db, s)
                   | Inr rows \<Rightarrow>
                       if \<not> commit_order_ok env then (submit_failure SaveFailed, db, s)
                       else
                         (let db' = db\<lparr>orders := orders db @ [order],
                                        order_items := order_items db @ rows\<rparr>
                          in if \<not> commit_clear_ok env
                             then (submit_failure SaveFailed, db', s)
                             else
                               (\<lparr>sr_success = True,
                                 sr_message = OrderConfirmed order_number (total draft),
                                 sr_order_id = Some order_id,
                                 sr_order_number = Some order_number,
                                 sr_order_cleared = True,
                                 sr_receipt = Some draft\<rparr>,
                                db', s\<lparr>current_order_draft := None\<rparr>)))))"


section \<open>Session store (src/services/context_manager.py)\<close>








text \<open>The session \<open>get_or_create_session\<close> creates for a customer without one.\<close>

definition new_session :: "string \<Rightarrow> string \<Rightarrow> session" where
  "new_session sid cid =
     \<lparr>session_id = sid, customer_id = cid, conversation_history = [],
      current_order_draft = None, conversation_state = CS_GREETING,
      unclear_count = Some 0\<rparr>"


section \<open>Orchestrator (src/services/orchestrator.py)\<close>

text \<open>
  The classifier's result for a turn (label and confidence; entities and sentiment are
  read by the agents only) and the response of a turn (reply, state, confidence, intent
  and draft; the session id and the receipt fields are left out).
\<close>

record intent_result =
  intent :: intent_type
  confidence :: rat







subsection \<open>Input sanitising and \<open>process_message\<close>\<close>

text \<open>Whitespace as \<open>str.split()\<close> and \<open>str.strip()\<close> see it, among the ASCII characters.\<close>

definition is_space :: "char \<Rightarrow> bool" where
  "is_space c = (c \<in> set [CHR 0x09, CHR 0x0A, CHR 0x0B, CHR 0x0C, CHR 0x0D,
                            CHR 0x1C, CHR 0x1D, CHR 0x1E, CHR 0x1F, CHR 0x20])"



definition strip :: "string \<Rightarrow> string" where
  "strip t = rev (dropWhile is_space (rev (dropWhile is_space t)))"




section \<open>Issue resolution coordinator (src/services/issue_resolution_agent.py)\<close>

datatype complaint_message =
  DescribeTheProblem | MissingCustomer | OrderNotFound
  | PolicyText policy_message | PolicyTextSupervisor policy_message | IssueSaveFailed

record issue_row =
  i_order_id :: string
  i_customer_id :: string
  i_issue_type :: issue_type
  i_status :: issue_status
  i_compensation_amount :: "money option"
  i_resolution :: policy_message

record complaint_result =
  c_success :: bool
  c_message :: complaint_message
  c_escalated :: "bool option"
  c_compensation :: "money option option"

text \<open>
  \<open>handle_complaint\<close>. \<open>classify_issue\<close> is the lexical classifier
  \<open>_classify_issue\<close>; \<open>located\<close> is the order the lookup found (by the id in the
  entities, else the customer's most recent one); \<open>commit_ok\<close> tells whether storing the
  issue succeeds. The result is the returned dictionary and the issue stored, if any
  (its description, sentiment and timestamp are left out).
\<close>

definition handle_complaint ::
  "(string \<Rightarrow> issue_type) \<Rightarrow> bool \<Rightarrow> string \<Rightarrow> string \<Rightarrow> order_row option \<Rightarrow>
   complaint_result \<times> issue_row option" where
  "handle_complaint classify_issue commit_ok msg cid located =
     (if msg = [] \<or> strip msg = [] then
        (\<lparr>c_success = False, c_message = DescribeTheProblem, c_escalated = None,
          c_compensation = None\<rparr>, None)
      else if cid = [] then
        (\<lparr>c_success = False, c_message = MissingCustomer, c_escalated = None,
          c_compensation = None\<rparr>, None)
      else
        (let issue_type = classify_issue msg
         in case located of
              None \<Rightarrow>
                (\<lparr>c_success = False, c_message = OrderNotFound, c_escalated = None,
                  c_compensation = None\<rparr>, None)
            | Some order \<Rightarrow>
                (let policy_result = resolve default_max_auto_refund issue_type (o_total order) 0;
                     issue = \<lparr>i_order_id = o_id order, i_customer_id = cid,
                              i_issue_type = issue_type,
                              i_status = (if requires_escalation policy_result
                                          then IS_ESCALATED else IS_RESOLVED),
                              i_compensation_amount = compensation_amount policy_result,
                              i_resolution = resolution_message policy_result\<rparr>
                 in if \<not> commit_ok then
                      (\<lparr>c_success = False, c_message = IssueSaveFailed,
                        c_escalated = Some True, c_compensation = None\<rparr>, None)
                    else if requires_escalation policy_result then
                      (\<lparr>c_success = True,
                        c_message = PolicyTextSupervisor (resolution_message policy_result),
                        c_escalated = Some True, c_compensation = None\<rparr>, Some issue)
                    else
                      (\<lparr>c_success = True,
                        c_message = PolicyText (resolution_message policy_result),
                        c_escalated = Some False,
                        c_compensation = Some (compensation_amount policy_result)\<rparr>,
                       Some issue))))"


section \<open>Notation for the properties\<close>



section \<open>Sample data (src/data/seed_data.py)\<close>

text \<open>
  Two catalog items with the names, prices and categories of seeded rows (their Arabic
  names left out), used where a property is evaluated on an input.
\<close>

definition classic_burger :: menu_item where
  "classic_burger =
     \<lparr>mi_id = ''menu-1'', mi_name = ''Classic Burger'', mi_arabic_name = None,
      mi_price = 899 / 100, mi_category = ''Burgers'', mi_is_available = True\<rparr>"

definition fries :: menu_item where
  "fries =
     \<lparr>mi_id = ''menu-9'', mi_name = ''Fries'', mi_arabic_name = None,
      mi_price = 399 / 100, mi_category = ''Sides'', mi_is_available = True\<rparr>"


section \<open>Properties of the policy engine\<close>

text \<open>
  Claim C4. The policy engine is a function of the issue category, the order total and
  the delay. With the default ceiling of 50: a missing item on a total of 30 is refunded
  in full without escalation, and on a total of 80 it is escalated with no compensation
  amount; a late delivery of 45 minutes on a total of 100 is credited
  \<open>min (0.2 * 100) 25 = 20\<close>, one of 10 minutes gets 0, neither escalates. For every
  input: a late delivery never escalates; a missing item is refunded in full exactly when
  the total is at most the engine's ceiling, a wrong order exactly when the total is at
  most 75, a quality issue is refunded by half exactly when the total is at most 30, and
  they escalate otherwise; every other category escalates. The ceilings are ordered
  \<open>30 < 50 < 75\<close>.
\<close>

theorem policy_engine_outcomes:
  "resolve 50 MISSING_ITEM 30 d =
     \<lparr>can_auto_resolve = True, resolution_message = MissingItemRefund 30,
      compensation_amount = Some 30, requires_escalation = False\<rparr>
   \<and> resolve 50 MISSING_ITEM 80 d =
     \<lparr>can_auto_resolve = False, resolution_message = ExceedsAutoRefundLimit,
      compensation_amount = None, requires_escalation = True\<rparr>
   \<and> compensation_amount (resolve m LATE_DELIVERY 100 45) = Some (min (2 / 10 * 100) 25)
   \<and> compensation_amount (resolve m LATE_DELIVERY 100 45) = Some 20
   \<and> \<not> requires_escalation (resolve m LATE_DELIVERY 100 45)
   \<and> compensation_amount (resolve m LATE_DELIVERY 100 10) = Some 0
   \<and> \<not> requires_escalation (resolve m LATE_DELIVERY 100 10)
   \<and> \<not> requires_escalation (resolve m LATE_DELIVERY t d)
   \<and> compensation_amount (resolve m LATE_DELIVERY t d) =
        Some (if d > 30 then min (t * (2 / 10)) 25 else 0)
   \<and> (requires_escalation (resolve m MISSING_ITEM t d) = (\<not> t \<le> m))
   \<and> compensation_amount (resolve m MISSING_ITEM t d) = (if t \<le> m then Some t else None)
   \<and> (requires_escalation (resolve m WRONG_ORDER t d) = (\<not> t \<le> 75))
   \<and> compensation_amount (resolve m WRONG_ORDER t d) = (if t \<le> 75 then Some t else None)
   \<and> (requires_escalation (resolve m QUALITY t d) = (\<not> t \<le> 30))
   \<and> compensation_amount (resolve m QUALITY t d) = (if t \<le> 30 then Some (t / 2) else None)
   \<and> (\<forall>c. c \<notin> {MISSING_ITEM, LATE_DELIVERY, WRONG_ORDER, QUALITY} \<longrightarrow>
          requires_escalation (resolve m c t d) \<and> compensation_amount (resolve m c t d) = None
          \<and> \<not> can_auto_resolve (resolve m c t d))
   \<and> (30::rat) < default_max_auto_refund \<and> default_max_auto_refund < 75"
  by (auto simp: resolve_def default_max_auto_refund_def Let_def split: issue_type.splits)

theorem policy_engine_outcomes_witness:
  "REFUND_REQUEST \<notin> {MISSING_ITEM, LATE_DELIVERY, WRONG_ORDER, QUALITY}
   \<and> requires_escalation (resolve 50 REFUND_REQUEST 10 0)
   \<and> compensation_amount (resolve 50 REFUND_REQUEST 10 0) = None"
  using policy_engine_outcomes [where m = 50 and t = 10 and d = 0] by simp

text \<open>
  Claim C10. A complaint that classifies as a late delivery and has an order located is
  resolved by the policy engine at the default delay of 0 minutes, whatever the order:
  the resolution is the no-compensation one (compensation 0, no escalation), and the
  issue is stored as resolved with compensation 0. (When storing the issue fails the
  caller is told of a hand-off instead and nothing is stored.)
\<close>

theorem late_delivery_complaint_uses_no_delay:
  assumes "classify_issue msg = LATE_DELIVERY" and "msg \<noteq> []" and "strip msg \<noteq> []"
    and "cid \<noteq> []"
  shows "resolve default_max_auto_refund (classify_issue msg) (o_total order) 0 =
           \<lparr>can_auto_resolve = True, resolution_message = DeliveryWithinRange,
            compensation_amount = Some 0, requires_escalation = False\<rparr>
         \<and> handle_complaint classify_issue True msg cid (Some order) =
           (\<lparr>c_success = True, c_message = PolicyText DeliveryWithinRange,
             c_escalated = Some False, c_compensation = Some (Some 0)\<rparr>,
            Some \<lparr>i_order_id = o_id order, i_customer_id = cid,
                  i_issue_type = LATE_DELIVERY, i_status = IS_RESOLVED,
                  i_compensation_amount = Some 0, i_resolution = DeliveryWithinRange\<rparr>)
         \<and> fst (handle_complaint classify_issue False msg cid (Some order)) =
             \<lparr>c_success = False, c_message = IssueSaveFailed, c_escalated = Some True,
              c_compensation = None\<rparr>
         \<and> snd (handle_complaint classify_issue False msg cid (Some order)) = None"
  using assms by (simp add: handle_complaint_def resolve_def Let_def)

theorem late_delivery_complaint_uses_no_delay_witness:
  "(\<lambda>m. LATE_DELIVERY) ''my order is late'' = LATE_DELIVERY
   \<and> strip ''my order is late'' \<noteq> []
   \<and> handle_complaint (\<lambda>m. LATE_DELIVERY) True ''my order is late'' ''c1''
        (Some \<lparr>o_id = ''o1'', o_customer_id = ''c1'', o_subtotal = 100, o_tax = 15,
               o_delivery_fee = 0, o_total = 115, o_fulfillment_type = ''drive-thru'',
               o_order_number = ''BRG-20260127-1234''\<rparr>) =
       (\<lparr>c_success = True, c_message = PolicyText DeliveryWithinRange,
         c_escalated = Some False, c_compensation = Some (Some 0)\<rparr>,
        Some \<lparr>i_order_id = ''o1'', i_customer_id = ''c1'',
              i_issue_type = LATE_DELIVERY, i_status = IS_RESOLVED,
              i_compensation_amount = Some 0, i_resolution = DeliveryWithinRange\<rparr>)
   \<and> compensation_amount (resolve default_max_auto_refund LATE_DELIVERY 115 45) = Some 23"
proof -
  have s: "strip ''my order is late'' \<noteq> []" by code_simp
  have c: "compensation_amount (resolve default_max_auto_refund LATE_DELIVERY 115 45) = Some 23"
    by code_simp
  show ?thesis
    using s c late_delivery_complaint_uses_no_delay [of "\<lambda>m. LATE_DELIVERY" "''my order is late''" "''c1''"
       "\<lparr>o_id = ''o1'', o_customer_id = ''c1'', o_subtotal = 100, o_tax = 15,
               o_delivery_fee = 0, o_total = 115, o_fulfillment_type = ''drive-thru'',
               o_order_number = ''BRG-20260127-1234''\<rparr>"]
    by simp
qed


section \<open>Properties of the order draft engine\<close>









subsection \<open>Submission\<close>

text \<open>
  What holds of \<open>submit_order\<close> on every run: a draft with a line whose catalog item is
  missing or unavailable is refused and nothing changes; a successful submission has
  stored the order with one order item per line and cleared the draft; an absent or empty
  draft creates nothing; and when the commit that clears the draft succeeds, the run
  either did all of it or none.
\<close>

lemma stage_rows:
  "stage_order_items menu oid its = Inr rows \<Longrightarrow>
   rows = map (\<lambda>it. \<lparr>oi_order_id = oid, oi_menu_item_id = li_id it,
                      oi_quantity = li_quantity it, oi_unit_price = li_price it\<rparr>) its
   \<and> (\<forall>it\<in>set its. \<exists>m\<in>set menu. mi_id m = li_id it \<and> mi_is_available m)"
proof (induction its arbitrary: rows)
  case Nil
  then show ?case by simp
next
  case (Cons a its)
  then show ?case
    by (auto split: option.splits sum.splits simp: find_Some_iff)
qed

lemma stage_unavailable:
  assumes "\<exists>it\<in>set its. \<not> (\<exists>m\<in>set menu. mi_id m = li_id it \<and> mi_is_available m)"
  shows "\<exists>it. stage_order_items menu oid its = Inl it"
proof (cases "stage_order_items menu oid its")
  case (Inl it)
  then show ?thesis by blast
next
  case (Inr rows)
  from stage_rows[OF this] assms show ?thesis by blast
qed

lemma submit_unavailable_no_effect:
  assumes "current_order_draft s = Some draft"
    and "\<exists>it\<in>set (items draft). \<not> (\<exists>m\<in>set (menu_items db). mi_id m = li_id it \<and> mi_is_available m)"
  shows "\<not> sr_success (fst (submit_order env oid onum db s))
       \<and> snd (submit_order env oid onum db s) = (db, s)"
proof -
  from assms(2) have ne: "items draft \<noteq> []" by auto
  from stage_unavailable[OF assms(2)] obtain it where
    "stage_order_items (menu_items db) oid (items draft) = Inl it" by blast
  then show ?thesis
    using assms(1) ne by (simp add: submit_order_def submit_failure_def Let_def)
qed

lemma submit_success_persists_and_clears:
  assumes "submit_order env oid onum db s = (r, db', s')" and "sr_success r"
  shows "\<exists>draft. current_order_draft s = Some draft \<and> items draft \<noteq> []
         \<and> current_order_draft s' = None
         \<and> orders db' = orders db @ [\<lparr>o_id = oid, o_customer_id = customer_id s,
               o_subtotal = subtotal draft, o_tax = tax draft,
               o_delivery_fee = delivery_fee draft, o_total = total draft,
               o_fulfillment_type = ''drive-thru'', o_order_number = onum\<rparr>]
         \<and> order_items db' = order_items db @
               map (\<lambda>it. \<lparr>oi_order_id = oid, oi_menu_item_id = li_id it,
                      oi_quantity = li_quantity it, oi_unit_price = li_price it\<rparr>) (items draft)"
  using assms
  by (auto simp: submit_order_def submit_failure_def Let_def dest: stage_rows
      split: option.splits if_splits sum.splits)

lemma submit_needs_nonempty_draft:
  assumes "current_order_draft s = None \<or> (\<exists>d. current_order_draft s = Some d \<and> items d = [])"
  shows "\<not> sr_success (fst (submit_order env oid onum db s))
       \<and> snd (submit_order env oid onum db s) = (db, s)"
  using assms by (auto simp: submit_order_def submit_failure_def)

lemma submit_single_commit_atomic:
  assumes "commit_clear_ok env" and "submit_order env oid onum db s = (r, db', s')"
  shows "(sr_success r \<and> current_order_draft s' = None \<and> length (orders db') = Suc (length (orders db)))
       \<or> (\<not> sr_success r \<and> db' = db \<and> s' = s)"
  using assms
  by (auto simp: submit_order_def submit_failure_def Let_def
      split: option.splits if_splits sum.splits)

text \<open>
  Claim C1 fails on the code where the second commit fails. The order and its items are
  committed by one \<open>db.commit()\<close>, the cleared draft by a second one. On a session whose
  draft holds two Classic Burgers, with the catalog item available, the flush and the
  first commit succeeding and the second commit raising, \<open>submit_order\<close> returns the
  failure "please retry" while the order and its order item stay committed and the draft
  stays as it was.
\<close>

theorem submit_order_clear_commit_failure:
  "(let s = (new_session ''s1'' ''c1'')
              \<lparr>current_order_draft := Some (with_totals [new_line_item classic_burger 2])\<rparr>;
        db = \<lparr>menu_items = [classic_burger, fries], orders = [], order_items = []\<rparr>;
        env = \<lparr>flush_ok = True, commit_order_ok = True, commit_clear_ok = False\<rparr>;
        (r, db', s') = submit_order env ''order-1'' ''BRG-20260127-1234'' db s
    in \<not> sr_success r
       \<and> sr_message r = SaveFailed
       \<and> map o_id (orders db') = [''order-1'']
       \<and> map oi_menu_item_id (order_items db') = [''menu-1'']
       \<and> map oi_quantity (order_items db') = [2]
       \<and> current_order_draft s' = current_order_draft s
       \<and> current_order_draft s' \<noteq> None)"
  by code_simp

subsection \<open>Requests that add nothing\<close>

text \<open>
  A request with at least one mention that has a name (a string or a dictionary), none of
  which resolves at confidence 0.85 or more, fails and leaves the session as it was.
\<close>

lemma add_item_no_match:
  assumes "fst (find_menu_item resolver n) = None \<or> snd (find_menu_item resolver n) < 85 / 100"
  shows "found_items (add_item resolver sim st n q) = found_items st"
    and "draft_items (add_item resolver sim st n q) = draft_items st"
    and "not_found (add_item resolver sim st n q) = not_found st @ [n]"
  using assms
  by (cases "find_menu_item resolver n"; auto simp: add_item_def Let_def split: option.splits)+

lemma fold_no_match:
  assumes "\<forall>m\<in>set ms. case m of
             MStr n \<Rightarrow> fst (find_menu_item resolver n) = None
                        \<or> snd (find_menu_item resolver n) < 85 / 100
           | MDict n q \<Rightarrow> fst (find_menu_item resolver n) = None
                        \<or> snd (find_menu_item resolver n) < 85 / 100
           | MInvalid \<Rightarrow> True"
  shows "found_items (foldl (process_mention resolver sim) st ms) = found_items st
       \<and> draft_items (foldl (process_mention resolver sim) st ms) = draft_items st
       \<and> (not_found st \<noteq> [] \<or> (\<exists>m\<in>set ms. m \<noteq> MInvalid)
            \<longrightarrow> not_found (foldl (process_mention resolver sim) st ms) \<noteq> [])"
  using assms
proof (induction ms arbitrary: st)
  case Nil
  then show ?case by simp
next
  case (Cons m ms)
  then have rest: "\<forall>m\<in>set ms. case m of
             MStr n \<Rightarrow> fst (find_menu_item resolver n) = None
                        \<or> snd (find_menu_item resolver n) < 85 / 100
           | MDict n q \<Rightarrow> fst (find_menu_item resolver n) = None
                        \<or> snd (find_menu_item resolver n) < 85 / 100
           | MInvalid \<Rightarrow> True" by simp
  note IH = Cons.IH[OF rest, of "process_mention resolver sim st m"]
  show ?case
  proof (cases m)
    case (MStr n)
    then have nm: "fst (find_menu_item resolver n) = None
                        \<or> snd (find_menu_item resolver n) < 85 / 100"
      using Cons.prems by simp
    show ?thesis using IH MStr add_item_no_match[OF nm, of sim st "QInt 1"] by simp
  next
    case (MDict n q)
    then have nm: "fst (find_menu_item resolver n) = None
                        \<or> snd (find_menu_item resolver n) < 85 / 100"
      using Cons.prems by simp
    show ?thesis using IH MDict add_item_no_match[OF nm, of sim st q] by simp
  next
    case MInvalid
    then show ?thesis using IH by auto
  qed
qed

lemma add_request_without_match_fails:
  assumes "\<forall>m\<in>set ms. case m of
             MStr n \<Rightarrow> fst (find_menu_item resolver n) = None
                        \<or> snd (find_menu_item resolver n) < 85 / 100
           | MDict n q \<Rightarrow> fst (find_menu_item resolver n) = None
                        \<or> snd (find_menu_item resolver n) < 85 / 100
           | MInvalid \<Rightarrow> True"
    and "\<exists>m\<in>set ms. m \<noteq> MInvalid"
  shows "\<not> success (fst (process_items_directly resolver sim ms s))
       \<and> snd (process_items_directly resolver sim ms s) = s"
proof -
  let ?st0 = "\<lparr>draft_items = load_items s, found_items = [], not_found = [], suggestions = []\<rparr>"
  from fold_no_match[OF assms(1), of sim ?st0] assms(2)
  have "found_items (foldl (process_mention resolver sim) ?st0 ms) = []"
    and "not_found (foldl (process_mention resolver sim) ?st0 ms) \<noteq> []" by auto
  then show ?thesis
    by (simp add: process_items_directly_def Let_def failure_def)
qed

text \<open>
  Claim C7 fails on the code where no mention is looked up at all. The failure test is
  \<open>not found_items and not_found\<close>; with both lists empty the function goes on, stores
  the draft and reports success. \<open>_process_items_directly\<close> on an empty list, and
  \<open>process_order_request\<close> on a list whose only element is neither a string nor a
  dictionary, return success with nothing added and turn the absent draft of a new
  session into a stored empty draft.
\<close>

theorem add_request_with_nothing_added_succeeds:
  "process_items_directly resolver sim [] (new_session sid cid) =
     (\<lparr>success = True, message = AddedToOrder [] [] [] [],
       result_draft = Some \<lparr>items = [], subtotal = 0, tax = 0, delivery_fee = 0, total = 0\<rparr>,
       should_retry_as_order = False\<rparr>,
      (new_session sid cid)\<lparr>current_order_draft :=
         Some \<lparr>items = [], subtotal = 0, tax = 0, delivery_fee = 0, total = 0\<rparr>\<rparr>)
   \<and> process_order_request resolver sim cues (new_session sid cid) [MInvalid] =
     (\<lparr>success = True, message = AddedToOrder [] [] [] [],
       result_draft = Some \<lparr>items = [], subtotal = 0, tax = 0, delivery_fee = 0, total = 0\<rparr>,
       should_retry_as_order = False\<rparr>,
      (new_session sid cid)\<lparr>current_order_draft :=
         Some \<lparr>items = [], subtotal = 0, tax = 0, delivery_fee = 0, total = 0\<rparr>\<rparr>)
   \<and> current_order_draft (new_session sid cid) = None"
  by (simp add: process_order_request_def process_items_directly_def compound_prefix_def
      new_session_def load_items_def with_totals_def calculate_totals_def raw_subtotal_def
      round2_def get_recommendations_def Let_def)


subsection \<open>Confidence tiers of the add path\<close>








subsection \<open>One line item per catalog id\<close>
























subsection \<open>Removal deletes or decrements\<close>










section \<open>Properties of the orchestrator\<close>





















end
